theory Spec2Isabelle
  imports Complex_Main "HOL-Library.Sublist"
begin

section \<open>SafeRoute: the route screen of \<open>App.tsx\<close>\<close>

text \<open>
  The component \<open>App\<close> keeps five state cells (\<open>origin\<close>, \<open>dest\<close>, \<open>result\<close>,
  \<open>loading\<close>, \<open>err\<close>), starts a route request in the async function \<open>getRoute\<close> and
  draws the stored result on a map. The model follows the source function by function:
  the state cells are a record, each setter is a record update, the async function is cut
  at its \<open>await\<close>s into the segments the event loop runs to completion, and every value
  thrown inside the \<open>try\<close> block is a branch that reaches the \<open>catch\<close>. The cells
  after each single setter call of a segment are listed separately, and so is the
  condition under which the render of a stored value throws.
\<close>

subsection \<open>Values\<close>

text \<open>
  A value produced by \<open>res.json()\<close>. Numbers are read as the decimal their literal
  denotes; the program passes them through and does no arithmetic on them before display.
  An object is its list of members in order; a member read takes the first entry of a key.
\<close>

datatype json_value =
    JNull
  | JBool bool
  | JNum real
  | JStr string
  | JArr "json_value list"
  | JObj "(string \<times> json_value) list"

text \<open>\<open>v.k\<close> on a parsed value: \<open>None\<close> stands for \<open>undefined\<close>.\<close>

definition property :: "string \<Rightarrow> json_value \<Rightarrow> json_value option" where
  "property k v = (case v of JObj kvs \<Rightarrow> map_of kvs k | _ \<Rightarrow> None)"

text \<open>Truthiness, as \<open>&&\<close> and \<open>||\<close> test it.\<close>

fun truthy :: "json_value \<Rightarrow> bool" where
  "truthy JNull = False"
| "truthy (JBool b) = b"
| "truthy (JNum x) = (x \<noteq> 0)"
| "truthy (JStr s) = (s \<noteq> [])"
| "truthy (JArr _) = True"
| "truthy (JObj _) = True"

record LatLng =
  latitude :: real
  longitude :: real

record RouteResult =
  shortest_distance_m :: real
  safest_distance_m :: real
  safest_score :: real
  shortest_route :: "LatLng list"
  safest_route :: "LatLng list"

text \<open>
  The cast \<open>(await res.json()) as RouteResult\<close> checks nothing at run time. The functions
  below say what it means for a parsed value to have the declared shape: \<open>as_RouteResult v\<close>
  is the typed reading of \<open>v\<close>, defined exactly when \<open>v\<close> is an object whose five members
  have the declared types.
\<close>

definition required_fields :: "string list" where
  "required_fields =
     [''shortest_distance_m'', ''safest_distance_m'', ''safest_score'',
      ''shortest_route'', ''safest_route'']"

definition missing_required :: "json_value \<Rightarrow> bool" where
  "missing_required v = list_ex (\<lambda>k. property k v = None) required_fields"

definition as_number :: "json_value option \<Rightarrow> real option" where
  "as_number v = (case v of Some (JNum x) \<Rightarrow> Some x | _ \<Rightarrow> None)"

definition as_LatLng :: "json_value \<Rightarrow> LatLng option" where
  "as_LatLng v =
     (case (as_number (property ''latitude'' v), as_number (property ''longitude'' v)) of
        (Some a, Some b) \<Rightarrow> Some \<lparr>latitude = a, longitude = b\<rparr>
      | _ \<Rightarrow> None)"

definition as_route :: "json_value option \<Rightarrow> LatLng list option" where
  "as_route v = (case v of Some (JArr vs) \<Rightarrow> those (map as_LatLng vs) | _ \<Rightarrow> None)"

definition as_RouteResult :: "json_value \<Rightarrow> RouteResult option" where
  "as_RouteResult v =
     (case (as_number (property ''shortest_distance_m'' v),
            as_number (property ''safest_distance_m'' v),
            as_number (property ''safest_score'' v),
            as_route (property ''shortest_route'' v),
            as_route (property ''safest_route'' v)) of
        (Some d1, Some d2, Some sc, Some r1, Some r2) \<Rightarrow>
          Some \<lparr>shortest_distance_m = d1, safest_distance_m = d2, safest_score = sc,
                shortest_route = r1, safest_route = r2\<rparr>
      | _ \<Rightarrow> None)"

subsection \<open>The HTTP exchange\<close>

definition BACKEND_LAN :: string where
  "BACKEND_LAN = ''http://192.168.1.130:8000''"

definition BACKEND_ANDROID_EMULATOR :: string where
  "BACKEND_ANDROID_EMULATOR = ''http://10.0.2.2:8000''"

text \<open>\<open>Platform.OS\<close> is the argument.\<close>

definition BASE_URL :: "string \<Rightarrow> string" where
  "BASE_URL os = (if os = ''android'' then BACKEND_ANDROID_EMULATOR else BACKEND_LAN)"

text \<open>
  The argument of \<open>fetch\<close>. \<open>body\<close> is the value handed to \<open>JSON.stringify\<close>; the
  serialiser belongs to the platform and writes every member of such an object, since no
  member is \<open>undefined\<close>.
\<close>

record Request =
  url :: string
  http_method :: string
  headers :: "(string \<times> string) list"
  body :: json_value

text \<open>
  What \<open>catch (e)\<close> can read from a thrown value through \<open>e?.message\<close>: \<open>No_message\<close>
  when \<open>e\<close> is null or undefined or has no message, \<open>Message m\<close> for the string \<open>m\<close>
  (possibly empty).
\<close>

datatype thrown = No_message | Message string

text \<open>
  The response object: its status line and what its two body readers settle to
  (\<open>Inl\<close> a rejection, \<open>Inr\<close> the value).
\<close>

record Response =
  status :: nat
  statusText :: string
  res_text :: "thrown + string"
  res_json :: "thrown + json_value"

definition ok :: "Response \<Rightarrow> bool" where
  "ok res = (200 \<le> status res \<and> status res \<le> 299)"

text \<open>A number in a template literal: its decimal digits.\<close>

fun show_nat :: "nat \<Rightarrow> string" where
  "show_nat n =
     (if n < 10 then [char_of (48 + n)]
      else show_nat (n div 10) @ [char_of (48 + n mod 10)])"

declare show_nat.simps [simp del]

text \<open>The en dash of the message template, in UTF-8.\<close>

definition en_dash :: string where
  "en_dash = [CHR 0xE2, CHR 0x80, CHR 0x93]"

definition protocol_message :: "Response \<Rightarrow> string \<Rightarrow> string" where
  "protocol_message res txt =
     show_nat (status res) @ '' '' @ statusText res @ '' '' @ en_dash @ '' '' @ txt"

subsection \<open>The state cells and \<open>getRoute\<close>\<close>

text \<open>\<open>result\<close> holds \<open>JNull\<close> for \<open>null\<close>, \<open>err\<close> holds \<open>None\<close> for \<open>null\<close>.\<close>

record app_state =
  origin :: string
  dest :: string
  result :: json_value
  loading :: bool
  err :: "string option"

definition initial_state :: app_state where
  "initial_state =
     \<lparr>origin = ''UC Irvine'', dest = ''Irvine Spectrum Center'',
      result = JNull, loading = False, err = None\<rparr>"

definition setOrigin :: "string \<Rightarrow> app_state \<Rightarrow> app_state" where
  "setOrigin v s = s\<lparr>origin := v\<rparr>"

definition setDest :: "string \<Rightarrow> app_state \<Rightarrow> app_state" where
  "setDest v s = s\<lparr>dest := v\<rparr>"

definition setResult :: "json_value \<Rightarrow> app_state \<Rightarrow> app_state" where
  "setResult v s = s\<lparr>result := v\<rparr>"

definition setLoading :: "bool \<Rightarrow> app_state \<Rightarrow> app_state" where
  "setLoading v s = s\<lparr>loading := v\<rparr>"

definition setErr :: "string option \<Rightarrow> app_state \<Rightarrow> app_state" where
  "setErr v s = s\<lparr>err := v\<rparr>"

text \<open>The request \<open>getRoute\<close> builds from the texts of the render that created it.\<close>

definition route_request :: "string \<Rightarrow> app_state \<Rightarrow> Request" where
  "route_request os s =
     \<lparr>url = BASE_URL os @ ''/route'',
      http_method = ''POST'',
      headers = [(''Content-Type'', ''application/json'')],
      body = JObj [(''origin'', JStr (origin s)),
                   (''destination'', JStr (dest s)),
                   (''alpha'', JNum 1.5),
                   (''beta'', JNum 0.7),
                   (''use_weather'', JBool False)]\<rparr>"

text \<open>
  A call of \<open>getRoute\<close> is suspended at one of three \<open>await\<close>s: on \<open>fetch\<close>, on
  \<open>res.text()\<close> (status not ok) or on \<open>res.json()\<close>.
\<close>

datatype stage = Awaiting_fetch | Awaiting_text Response | Awaiting_json Response

text \<open>
  The world: the platform name, the state cells, the suspended calls of \<open>getRoute\<close> by
  call number, and the requests handed to \<open>fetch\<close> so far. A call's number is the
  position of its request in \<open>sent\<close>.
\<close>

record world =
  platform :: string
  ui :: app_state
  calls :: "nat \<rightharpoonup> stage"
  sent :: "Request list"

definition initial_world :: "string \<Rightarrow> world" where
  "initial_world os = \<lparr>platform = os, ui = initial_state, calls = Map.empty, sent = []\<rparr>"

text \<open>Lines 39 to 54: the three setters, then \<open>fetch\<close> is called and the call suspends.\<close>

definition getRoute_begin :: "world \<Rightarrow> world" where
  "getRoute_begin w =
     w\<lparr>ui := setLoading True (setResult JNull (setErr None (ui w))),
       calls := (calls w)(length (sent w) \<mapsto> Awaiting_fetch),
       sent := sent w @ [route_request (platform w) (ui w)]\<rparr>"

text \<open>\<open>e?.message || "Network error"\<close>.\<close>

definition message_or_default :: "thrown \<Rightarrow> string" where
  "message_or_default e =
     (case e of No_message \<Rightarrow> ''Network error''
      | Message m \<Rightarrow> if m = [] then ''Network error'' else m)"

text \<open>
  The end of the \<open>try\<close> statement for a block that threw \<open>e\<close> (\<open>Inl e\<close>: \<open>catch\<close>, then
  \<open>finally\<close>) or that reached \<open>setResult(data)\<close> (\<open>Inr data\<close>: then \<open>finally\<close>).
\<close>

definition getRoute_finish :: "thrown + json_value \<Rightarrow> app_state \<Rightarrow> app_state" where
  "getRoute_finish r s =
     (case r of
        Inl e \<Rightarrow> setLoading False (setErr (Some (message_or_default e)) s)
      | Inr data \<Rightarrow> setLoading False (setResult data s))"

text \<open>Where the call suspends next once \<open>fetch\<close> has resolved with \<open>res\<close>.\<close>

definition after_fetch :: "Response \<Rightarrow> stage" where
  "after_fetch res = (if \<not> ok res then Awaiting_text res else Awaiting_json res)"

text \<open>
  The not-ok branch always throws: the rejection of \<open>res.text()\<close>, or the \<open>Error\<close>
  built from status, status text and body.
\<close>

definition text_outcome :: "Response \<Rightarrow> thrown + json_value" where
  "text_outcome res =
     (case res_text res of
        Inl e \<Rightarrow> Inl e
      | Inr txt \<Rightarrow> Inl (Message (protocol_message res txt)))"

definition finish_call :: "nat \<Rightarrow> thrown + json_value \<Rightarrow> world \<Rightarrow> world" where
  "finish_call i r w = w\<lparr>ui := getRoute_finish r (ui w), calls := (calls w)(i := None)\<rparr>"

text \<open>Call \<open>i\<close> resumes after \<open>await fetch(...)\<close>, which rejected or resolved.\<close>

definition getRoute_fetched :: "nat \<Rightarrow> thrown + Response \<Rightarrow> world \<Rightarrow> world" where
  "getRoute_fetched i outcome w =
     (case calls w i of
        Some Awaiting_fetch \<Rightarrow>
          (case outcome of
             Inl e \<Rightarrow> finish_call i (Inl e) w
           | Inr res \<Rightarrow> w\<lparr>calls := (calls w)(i \<mapsto> after_fetch res)\<rparr>)
      | _ \<Rightarrow> w)"

text \<open>Call \<open>i\<close> resumes after \<open>await res.text()\<close> or \<open>await res.json()\<close>.\<close>

definition getRoute_body :: "nat \<Rightarrow> world \<Rightarrow> world" where
  "getRoute_body i w =
     (case calls w i of
        Some (Awaiting_text res) \<Rightarrow> finish_call i (text_outcome res) w
      | Some (Awaiting_json res) \<Rightarrow> finish_call i (res_json res) w
      | _ \<Rightarrow> w)"

text \<open>One call carried from the settling of its \<open>fetch\<close> to its end.\<close>

definition settle :: "nat \<Rightarrow> thrown + Response \<Rightarrow> world \<Rightarrow> world" where
  "settle i outcome w = getRoute_body i (getRoute_fetched i outcome w)"

text \<open>What the \<open>try\<close> block of one call yields for a given settling of its \<open>fetch\<close>.\<close>

definition call_outcome :: "thrown + Response \<Rightarrow> thrown + json_value" where
  "call_outcome outcome =
     (case outcome of
        Inl e \<Rightarrow> Inl e
      | Inr res \<Rightarrow> if \<not> ok res then text_outcome res else res_json res)"

subsection \<open>Events of the screen\<close>

text \<open>
  The two text inputs, the button (\<open>disabled={loading}\<close>: a press while loading does
  nothing) and the settling of the promises of a suspended call.
\<close>

datatype event =
    Change_origin string
  | Change_dest string
  | Press
  | Fetch_settled nat "thrown + Response"
  | Body_settled nat

fun step :: "world \<Rightarrow> event \<Rightarrow> world" where
  "step w (Change_origin v) = w\<lparr>ui := setOrigin v (ui w)\<rparr>"
| "step w (Change_dest v) = w\<lparr>ui := setDest v (ui w)\<rparr>"
| "step w Press = (if loading (ui w) then w else getRoute_begin w)"
| "step w (Fetch_settled i outcome) = getRoute_fetched i outcome w"
| "step w (Body_settled i) = getRoute_body i w"

definition run :: "string \<Rightarrow> event list \<Rightarrow> world" where
  "run os es = foldl step (initial_world os) es"

subsection \<open>The fetch state\<close>

text \<open>
  The four variants of the specification, read off the three cells; \<open>None\<close> when the
  cells are in none of the four combinations.
\<close>

datatype FetchState = Idle | Loading | Success json_value | Failure string

definition fetchState :: "app_state \<Rightarrow> FetchState option" where
  "fetchState s =
     (if loading s then
        (if result s = JNull \<and> err s = None then Some Loading else None)
      else
        (case err s of
           None \<Rightarrow> if result s = JNull then Some Idle else Some (Success (result s))
         | Some m \<Rightarrow> if result s = JNull then Some (Failure m) else None))"

subsection \<open>The presenter\<close>

text \<open>
  The part of the render under \<open>{result && (...)}\<close>, read at the declared type of
  \<open>result\<close>. \<open>xs[i]\<close> on an array is \<open>undefined\<close> (\<open>None\<close>) outside its range; props are
  kept as the render computes them.
\<close>

definition at_index :: "'a list \<Rightarrow> int \<Rightarrow> 'a option" where
  "at_index xs i = (if 0 \<le> i \<and> i < int (length xs) then Some (xs ! nat i) else None)"

record Region = LatLng +
  latitudeDelta :: real
  longitudeDelta :: real

definition initialRegionFor :: "LatLng list option \<Rightarrow> Region" where
  "initialRegionFor coords =
     (let center =
        (case coords of
           None \<Rightarrow> \<lparr>latitude = 33.64, longitude = - 117.84\<rparr>
         | Some cs \<Rightarrow>
             if length cs \<noteq> 0 then cs ! 0
             else \<lparr>latitude = 33.64, longitude = - 117.84\<rparr>)
      in \<lparr>latitude = latitude center, longitude = longitude center,
          latitudeDelta = 0.05, longitudeDelta = 0.05\<rparr>)"

record Polyline =
  coordinates :: "LatLng list"
  strokeColor :: string
  strokeWidth :: nat
  lineDashPattern :: "nat list option"

record Marker =
  coordinate :: "LatLng option"
  title :: string

record MapView =
  initialRegion :: Region
  polylines :: "Polyline list"
  markers :: "Marker list"

text \<open>\<open>Math.round\<close>: the nearest integer, halves upwards.\<close>

definition Math_round :: "real \<Rightarrow> int" where
  "Math_round x = \<lfloor>x + 1 / 2\<rfloor>"

record result_view =
  shortest_text :: int
  safest_text :: int
  score_text :: int
  mapView :: MapView

definition present :: "RouteResult \<Rightarrow> result_view" where
  "present r =
     \<lparr>shortest_text = Math_round (shortest_distance_m r),
      safest_text = Math_round (safest_distance_m r),
      score_text = Math_round (safest_score r),
      mapView =
        \<lparr>initialRegion = initialRegionFor (Some (shortest_route r)),
         polylines =
           [\<lparr>coordinates = shortest_route r, strokeColor = ''blue'', strokeWidth = 6,
             lineDashPattern = None\<rparr>,
            \<lparr>coordinates = safest_route r, strokeColor = ''green'', strokeWidth = 2,
             lineDashPattern = Some [4, 4]\<rparr>],
         markers =
           [\<lparr>coordinate = at_index (shortest_route r) 0, title = ''Origin''\<rparr>,
            \<lparr>coordinate =
               at_index (shortest_route r) (int (length (shortest_route r)) - 1),
             title = ''Destination''\<rparr>]\<rparr>\<rparr>"

text \<open>The three conditional parts of the render: \<open>loading &&\<close>, \<open>err &&\<close>, \<open>result &&\<close>.\<close>

definition spinner_shown :: "app_state \<Rightarrow> bool" where
  "spinner_shown s = loading s"

definition error_shown :: "app_state \<Rightarrow> string option" where
  "error_shown s = (case err s of None \<Rightarrow> None | Some m \<Rightarrow> if m = [] then None else Some m)"

definition result_shown :: "app_state \<Rightarrow> bool" where
  "result_shown s = truthy (result s)"

subsection \<open>Sample exchanges\<close>

definition sample_route :: json_value where
  "sample_route =
     JArr [JObj [(''latitude'', JNum 33.6405), (''longitude'', JNum (- 117.8443))],
           JObj [(''latitude'', JNum 33.6501), (''longitude'', JNum (- 117.8302))],
           JObj [(''latitude'', JNum 33.6506), (''longitude'', JNum (- 117.7431))]]"

definition sample_result :: "real \<Rightarrow> json_value \<Rightarrow> json_value" where
  "sample_result d route =
     JObj [(''shortest_distance_m'', JNum d), (''safest_distance_m'', JNum 5800),
           (''safest_score'', JNum 87), (''shortest_route'', route),
           (''safest_route'', sample_route)]"

definition response_200 :: "json_value \<Rightarrow> Response" where
  "response_200 v =
     \<lparr>status = 200, statusText = ''OK'', res_text = Inr ''(json text)'', res_json = Inr v\<rparr>"

definition response_500 :: Response where
  "response_500 =
     \<lparr>status = 500, statusText = ''Internal Server Error'',
      res_text = Inr ''internal error'',
      res_json = Inl (Message ''JSON Parse error: Unexpected identifier'')\<rparr>"

definition response_404 :: Response where
  "response_404 =
     \<lparr>status = 404, statusText = ''Not Found'', res_text = Inr ''no such place'',
      res_json = Inl (Message ''JSON Parse error: Unexpected identifier'')\<rparr>"

definition response_502_unreadable :: Response where
  "response_502_unreadable =
     \<lparr>status = 502, statusText = ''Bad Gateway'', res_text = Inl (Message ''stream closed''),
      res_json = Inl (Message ''stream closed'')\<rparr>"



subsection \<open>The setter calls of a segment, one by one\<close>

text \<open>
  The cells after each setter call of a segment, in the order of the calls: lines 39 to
  41 for a submission; line 62 or line 64, then line 66, for the end of a call. The last
  state of a segment is the one its function above returns.
\<close>

definition getRoute_begin_steps :: "app_state \<Rightarrow> app_state list" where
  "getRoute_begin_steps s =
     [setErr None s,
      setResult JNull (setErr None s),
      setLoading True (setResult JNull (setErr None s))]"

definition getRoute_finish_steps :: "thrown + json_value \<Rightarrow> app_state \<Rightarrow> app_state list" where
  "getRoute_finish_steps r s =
     (case r of
        Inl e \<Rightarrow>
          [setErr (Some (message_or_default e)) s,
           setLoading False (setErr (Some (message_or_default e)) s)]
      | Inr data \<Rightarrow>
          [setResult data s,
           setLoading False (setResult data s)])"

fun segment_states :: "world \<Rightarrow> event \<Rightarrow> app_state list" where
  "segment_states w (Change_origin v) = [setOrigin v (ui w)]"
| "segment_states w (Change_dest v) = [setDest v (ui w)]"
| "segment_states w Press = (if loading (ui w) then [] else getRoute_begin_steps (ui w))"
| "segment_states w (Fetch_settled i outcome) =
     (case calls w i of
        Some Awaiting_fetch \<Rightarrow>
          (case outcome of
             Inl e \<Rightarrow> getRoute_finish_steps (Inl e) (ui w)
           | Inr res \<Rightarrow> [])
      | _ \<Rightarrow> [])"
| "segment_states w (Body_settled i) =
     (case calls w i of
        Some (Awaiting_text res) \<Rightarrow> getRoute_finish_steps (text_outcome res) (ui w)
      | Some (Awaiting_json res) \<Rightarrow> getRoute_finish_steps (res_json res) (ui w)
      | _ \<Rightarrow> [])"

subsection \<open>What the render reads from the stored value\<close>

text \<open>
  The stored result is whatever was parsed, so the reads of the render are reads on an
  untyped value. A read of a member of \<open>undefined\<close> or \<open>null\<close> throws a TypeError. Under
  \<open>result &&\<close> the render reads members of \<open>result\<close> itself (never a throw, \<open>result\<close>
  being truthy), calls \<open>initialRegionFor(result.shortest_route)\<close>, which reads
  \<open>center.latitude\<close>, and reads \<open>result.shortest_route[0]\<close> and
  \<open>result.shortest_route[result.shortest_route.length - 1]\<close> for the markers.
\<close>

definition nullish :: "json_value option \<Rightarrow> bool" where
  "nullish v = (case v of None \<Rightarrow> True | Some x \<Rightarrow> x = JNull)"

text \<open>\<open>v.length\<close> and \<open>v[0]\<close> on a truthy value.\<close>

definition js_length :: "json_value \<Rightarrow> json_value option" where
  "js_length v =
     (case v of
        JArr xs \<Rightarrow> Some (JNum (real (length xs)))
      | JStr s \<Rightarrow> Some (JNum (real (length s)))
      | JObj kvs \<Rightarrow> map_of kvs ''length''
      | _ \<Rightarrow> None)"

definition js_first :: "json_value \<Rightarrow> json_value option" where
  "js_first v =
     (case v of
        JArr xs \<Rightarrow> (case xs of [] \<Rightarrow> None | x # _ \<Rightarrow> Some x)
      | JStr s \<Rightarrow> (case s of [] \<Rightarrow> None | c # _ \<Rightarrow> Some (JStr [c]))
      | JObj kvs \<Rightarrow> map_of kvs ''0''
      | _ \<Rightarrow> None)"

text \<open>
  \<open>initialRegionFor(coords)\<close> throws when \<open>coords && coords.length\<close> is truthy and
  \<open>coords[0]\<close>, taken as the centre, is \<open>undefined\<close> or \<open>null\<close>.
\<close>

definition initialRegionFor_throws :: "json_value option \<Rightarrow> bool" where
  "initialRegionFor_throws coords =
     (case coords of
        None \<Rightarrow> False
      | Some c \<Rightarrow>
          truthy c
          \<and> (case js_length c of None \<Rightarrow> False | Some n \<Rightarrow> truthy n)
          \<and> nullish (js_first c))"

definition result_part_throws :: "json_value \<Rightarrow> bool" where
  "result_part_throws r =
     (initialRegionFor_throws (property ''shortest_route'' r)
      \<or> nullish (property ''shortest_route'' r))"

definition render_throws :: "app_state \<Rightarrow> bool" where
  "render_throws s = (truthy (result s) \<and> result_part_throws (result s))"

text \<open>
  A run of the screen in which every state passed through can be rendered: \<open>None\<close> as
  soon as the render of one of them throws, after which the screen is lost (the
  component has no error boundary).
\<close>

fun play :: "world \<Rightarrow> event list \<Rightarrow> world option" where
  "play w [] = Some w"
| "play w (ev # es) =
     (if list_ex render_throws (segment_states w ev) then None else play (step w ev) es)"

subsection \<open>One request at a time\<close>

text \<open>
  The shape of the world that the button's guard maintains: while loading, nothing is
  stored and exactly one call is suspended; otherwise no call is suspended and at most
  one of result and error is stored.
\<close>

definition single_flight :: "world \<Rightarrow> bool" where
  "single_flight w =
     (if loading (ui w) then
        result (ui w) = JNull \<and> err (ui w) = None \<and> (\<exists>i st. calls w = [i \<mapsto> st])
      else
        calls w = Map.empty \<and> (result (ui w) = JNull \<or> err (ui w) = None))"

section \<open>Properties\<close>

subsection \<open>Submission\<close>

lemma ui_getRoute_begin:
  "ui (getRoute_begin w) = (ui w)\<lparr>result := JNull, loading := True, err := None\<rparr>"
  by (simp add: getRoute_begin_def setLoading_def setResult_def setErr_def)

lemma calls_getRoute_begin:
  "calls (getRoute_begin w) = (calls w)(length (sent w) \<mapsto> Awaiting_fetch)"
  by (simp add: getRoute_begin_def)

lemma sent_getRoute_begin:
  "sent (getRoute_begin w) = sent w @ [route_request (platform w) (ui w)]"
  by (simp add: getRoute_begin_def)

text \<open>
  C4. For any origin and destination texts, the body of the request that a submission
  hands to \<open>fetch\<close> is an object with exactly the keys origin, destination, alpha, beta and
  use_weather, in this order and each once; origin and destination carry the current
  texts unchanged (empty ones too), alpha is 1.5, beta is 0.7 and use_weather is false.
\<close>

theorem request_body_exact:
  "sent (getRoute_begin w) = sent w @ [route_request (platform w) (ui w)]
   \<and> body (route_request os s) =
       JObj [(''origin'', JStr (origin s)), (''destination'', JStr (dest s)),
             (''alpha'', JNum 1.5), (''beta'', JNum 0.7), (''use_weather'', JBool False)]
   \<and> (\<exists>kvs. body (route_request os s) = JObj kvs
        \<and> map fst kvs = [''origin'', ''destination'', ''alpha'', ''beta'', ''use_weather''])
   \<and> property ''origin'' (body (route_request os s)) = Some (JStr (origin s))
   \<and> property ''destination'' (body (route_request os s)) = Some (JStr (dest s))
   \<and> property ''alpha'' (body (route_request os s)) = Some (JNum (3 / 2))
   \<and> property ''beta'' (body (route_request os s)) = Some (JNum (7 / 10))
   \<and> property ''use_weather'' (body (route_request os s)) = Some (JBool False)"
  by (simp add: sent_getRoute_begin route_request_def property_def)

text \<open>
  C7. Whatever result and error were stored before, a submission leaves the cells with
  no result, no error and loading set, in the same segment that hands the request to
  \<open>fetch\<close>: the fetch state is Loading and the call waits for the network.
\<close>

theorem submission_clears_previous:
  "result (ui (getRoute_begin w)) = JNull
   \<and> err (ui (getRoute_begin w)) = None
   \<and> loading (ui (getRoute_begin w))
   \<and> fetchState (ui (getRoute_begin w)) = Some Loading
   \<and> calls (getRoute_begin w) (length (sent w)) = Some Awaiting_fetch"
  by (simp add: ui_getRoute_begin fetchState_def calls_getRoute_begin)

subsection \<open>One call from submission to its end\<close>

lemma settle_awaiting:
  assumes "calls w i = Some Awaiting_fetch"
  shows "settle i outcome w = finish_call i (call_outcome outcome) w"
proof (cases outcome)
  case (Inl e)
  then show ?thesis
    using assms
    by (simp add: settle_def getRoute_fetched_def getRoute_body_def finish_call_def
        call_outcome_def)
next
  case (Inr res)
  then show ?thesis
    using assms
    by (simp add: settle_def getRoute_fetched_def getRoute_body_def finish_call_def
        call_outcome_def after_fetch_def)
qed

lemma ui_finish_call: "ui (finish_call i r w) = getRoute_finish r (ui w)"
  by (simp add: finish_call_def)

lemma ui_settle_begin:
  "ui (settle (length (sent w)) outcome (getRoute_begin w)) =
     getRoute_finish (call_outcome outcome)
       ((ui w)\<lparr>result := JNull, loading := True, err := None\<rparr>)"
  by (simp add: settle_awaiting calls_getRoute_begin finish_call_def ui_getRoute_begin)

lemma getRoute_finish_Inr:
  "getRoute_finish (Inr data) s = s\<lparr>result := data, loading := False\<rparr>"
  by (simp add: getRoute_finish_def setLoading_def setResult_def)

lemma getRoute_finish_Inl:
  "getRoute_finish (Inl e) s = s\<lparr>err := Some (message_or_default e), loading := False\<rparr>"
  by (simp add: getRoute_finish_def setLoading_def setErr_def)

lemma message_or_default_nonempty: "message_or_default e \<noteq> []"
  by (cases e) (simp_all add: message_or_default_def)

lemma call_outcome_response_200: "call_outcome (Inr (response_200 v)) = Inr v"
  by (simp add: call_outcome_def ok_def response_200_def)

lemma not_missing_is_object: "\<not> missing_required v \<Longrightarrow> v \<noteq> JNull"
  by (auto simp add: missing_required_def required_fields_def property_def)

text \<open>The digits of \<open>show_nat\<close> are decimal digits, and their value is the number.\<close>

lemma show_nat_digits: "set (show_nat n) \<subseteq> set ''0123456789''"
proof (induction n rule: show_nat.induct)
  case (1 n)
  have c: "map (\<lambda>k. char_of (48 + k)) [0, 1, 2, 3, 4, 5, 6, 7, 8, 9 :: nat] = ''0123456789''"
    by code_simp
  have d: "char_of (48 + k) \<in> set ''0123456789''" if "k < 10" for k :: nat
  proof -
    from that have "k \<in> set [0, 1, 2, 3, 4, 5, 6, 7, 8, 9]" by auto
    then have "char_of (48 + k) \<in> (\<lambda>k. char_of (48 + k)) ` set [0, 1, 2, 3, 4, 5, 6, 7, 8, 9 :: nat]"
      by (rule imageI)
    then show ?thesis unfolding set_map [symmetric] c .
  qed
  show ?case
  proof (cases "n < 10")
    case True
    then show ?thesis using d [of n] by (subst show_nat.simps) simp
  next
    case False
    have "n mod 10 < 10" by simp
    then show ?thesis using False 1 d [of "n mod 10"]
      by (subst show_nat.simps) simp
  qed
qed

lemma show_nat_value:
  "foldl (\<lambda>a c. 10 * a + (of_char c - 48)) 0 (show_nat n) = n"
proof (induction n rule: show_nat.induct)
  case (1 n)
  have d: "of_char (char_of (48 + k)) - 48 = k" if "k < 10" for k :: nat
    using that by simp
  show ?case
  proof (cases "n < 10")
    case True
    then show ?thesis using d [of n] by (subst show_nat.simps) simp
  next
    case False
    have "n mod 10 < 10" by simp
    then show ?thesis using False 1 d [of "n mod 10"]
      by (subst show_nat.simps) simp
  qed
qed

text \<open>
  C5, as stated, fails: for a 502 response whose body cannot be read, the call ends in
  Failure with the reader's message, which contains neither the status code nor the
  status text (and there is no body to contain).
\<close>

theorem unreadable_body_counterexample:
  "\<not> ok response_502_unreadable
   \<and> fetchState
        (ui (settle 0 (Inr response_502_unreadable) (getRoute_begin (initial_world ''ios''))))
       = Some (Failure ''stream closed'')
   \<and> show_nat (status response_502_unreadable) = ''502''
   \<and> \<not> sublist ''502'' ''stream closed''
   \<and> statusText response_502_unreadable = ''Bad Gateway''
   \<and> \<not> sublist ''Bad Gateway'' ''stream closed''"
proof -
  have h: "\<not> ok response_502_unreadable"
    by (simp add: ok_def response_502_unreadable_def)
  have c: "call_outcome (Inr response_502_unreadable) = Inl (Message ''stream closed'')"
    by (simp add: call_outcome_def h text_outcome_def) (simp add: response_502_unreadable_def)
  have u: "ui (settle 0 (Inr response_502_unreadable) (getRoute_begin (initial_world ''ios'')))
        = initial_state\<lparr>err := Some ''stream closed''\<rparr>"
    using ui_settle_begin [of "initial_world ''ios''" "Inr response_502_unreadable"]
    by (simp add: c initial_world_def initial_state_def getRoute_finish_Inl
        message_or_default_def)
  have n: "show_nat (status response_502_unreadable) = ''502''"
    unfolding response_502_unreadable_def by code_simp
  have s1: "\<not> sublist ''502'' ''stream closed''"
    by (simp add: sublist_Cons_right)
  have s2: "\<not> sublist ''Bad Gateway'' ''stream closed''"
    by (simp add: sublist_Cons_right)
  have t: "statusText response_502_unreadable = ''Bad Gateway''"
    by (simp add: response_502_unreadable_def)
  show ?thesis
    unfolding u using h n s1 s2 t by (simp add: fetchState_def initial_state_def)
qed

text \<open>
  C5, amended. For every response whose status is outside 200 to 299, the call ends in
  Failure. When the body text is read as \<open>t\<close>, the stored message is the decimal status
  code, a space, the status text, an en dash between spaces and \<open>t\<close>, so it contains the
  status code, the status text and the raw body. When reading the body fails, the stored
  message is the message of that failure, or "Network error" when it has none. The
  status code is written in decimal digits whose value is the status.
\<close>

theorem non_ok_ends_in_failure:
  assumes "\<not> ok res"
  shows "(\<exists>m. fetchState (ui (settle (length (sent w)) (Inr res) (getRoute_begin w)))
            = Some (Failure m))
       \<and> (\<forall>t. res_text res = Inr t \<longrightarrow>
            (\<exists>m. err (ui (settle (length (sent w)) (Inr res) (getRoute_begin w))) = Some m
               \<and> m = show_nat (status res) @ '' '' @ statusText res @ '' '' @ en_dash
                      @ '' '' @ t
               \<and> sublist (show_nat (status res)) m
               \<and> sublist (statusText res) m
               \<and> sublist t m))
       \<and> (\<forall>e. res_text res = Inl e \<longrightarrow>
            err (ui (settle (length (sent w)) (Inr res) (getRoute_begin w)))
              = Some (message_or_default e))
       \<and> foldl (\<lambda>a c. 10 * a + (of_char c - 48)) (0 :: nat) (show_nat (status res))
           = status res
       \<and> set (show_nat (status res)) \<subseteq> set ''0123456789''"
proof -
  let ?s = "ui (settle (length (sent w)) (Inr res) (getRoute_begin w))"
  obtain e where e: "call_outcome (Inr res) = Inl e"
    using assms by (cases "res_text res") (simp_all add: call_outcome_def text_outcome_def)
  have s: "?s = (ui w)\<lparr>result := JNull, loading := False, err := Some (message_or_default e)\<rparr>"
    by (simp add: ui_settle_begin e getRoute_finish_Inl)
  have 1: "\<exists>m. fetchState ?s = Some (Failure m)"
    by (simp add: s fetchState_def)
  have 2: "err ?s = Some (protocol_message res t)" if "res_text res = Inr t" for t
  proof -
    have "e = Message (protocol_message res t)"
      using e that assms by (simp add: call_outcome_def text_outcome_def)
    moreover have "protocol_message res t \<noteq> []"
      by (simp add: protocol_message_def)
    ultimately show ?thesis
      by (simp add: s message_or_default_def)
  qed
  have 3: "sublist (show_nat (status res)) (protocol_message res t)" for t
    by (simp add: protocol_message_def)
  have 4: "sublist (statusText res) (protocol_message res t)" for t
    unfolding protocol_message_def
    using sublist_appendI [of "statusText res" "show_nat (status res) @ '' ''"]
    by simp
  have 5: "sublist t (protocol_message res t)" for t
    unfolding protocol_message_def
    using sublist_append_leftI
      [of t "show_nat (status res) @ '' '' @ statusText res @ '' '' @ en_dash @ '' ''"]
    by simp
  have 6: "err ?s = Some (message_or_default x)" if "res_text res = Inl x" for x
  proof -
    have "e = x"
      using e that assms by (simp add: call_outcome_def text_outcome_def)
    then show ?thesis by (simp add: s)
  qed
  have 7: "\<forall>t. res_text res = Inr t \<longrightarrow>
            (\<exists>m. err ?s = Some m
               \<and> m = show_nat (status res) @ '' '' @ statusText res @ '' '' @ en_dash
                      @ '' '' @ t
               \<and> sublist (show_nat (status res)) m
               \<and> sublist (statusText res) m
               \<and> sublist t m)"
    using 2 3 4 5 by (simp add: protocol_message_def)
  show ?thesis
    using 1 6 7 show_nat_value [of "status res"] show_nat_digits [of "status res"]
    by blast
qed

theorem non_ok_ends_in_failure_witness:
  "\<not> ok response_500
   \<and> res_text response_500 = Inr ''internal error''
   \<and> err (ui (settle 0 (Inr response_500) (getRoute_begin (initial_world ''ios''))))
       = Some (''500 Internal Server Error '' @ en_dash @ '' internal error'')
   \<and> \<not> ok response_404
   \<and> res_text response_404 = Inr ''no such place''
   \<and> err (ui (settle 0 (Inr response_404) (getRoute_begin (initial_world ''ios''))))
       = Some (''404 Not Found '' @ en_dash @ '' no such place'')
   \<and> \<not> ok response_502_unreadable
   \<and> res_text response_502_unreadable = Inl (Message ''stream closed'')
   \<and> err (ui (settle 0 (Inr response_502_unreadable) (getRoute_begin (initial_world ''ios''))))
       = Some ''stream closed''"
proof -
  have h5: "\<not> ok response_500" by (simp add: ok_def response_500_def)
  have t5: "res_text response_500 = Inr ''internal error''" by (simp add: response_500_def)
  have n5: "show_nat 500 = ''500''" by code_simp
  have h4: "\<not> ok response_404" by (simp add: ok_def response_404_def)
  have t4: "res_text response_404 = Inr ''no such place''" by (simp add: response_404_def)
  have n4: "show_nat 404 = ''404''" by code_simp
  have h2: "\<not> ok response_502_unreadable" by (simp add: ok_def response_502_unreadable_def)
  have t2: "res_text response_502_unreadable = Inl (Message ''stream closed'')"
    by (simp add: response_502_unreadable_def)
  from non_ok_ends_in_failure [OF h5, of "initial_world ''ios''"] t5
  have 5: "err (ui (settle 0 (Inr response_500) (getRoute_begin (initial_world ''ios''))))
        = Some (''500 Internal Server Error '' @ en_dash @ '' internal error'')"
    by (simp add: initial_world_def response_500_def n5)
  from non_ok_ends_in_failure [OF h4, of "initial_world ''ios''"] t4
  have 4: "err (ui (settle 0 (Inr response_404) (getRoute_begin (initial_world ''ios''))))
        = Some (''404 Not Found '' @ en_dash @ '' no such place'')"
    by (simp add: initial_world_def response_404_def n4)
  from non_ok_ends_in_failure [OF h2, of "initial_world ''ios''"] t2
  have 2: "err (ui (settle 0 (Inr response_502_unreadable)
                 (getRoute_begin (initial_world ''ios''))))
        = Some ''stream closed''"
    by (simp add: initial_world_def message_or_default_def)
  show ?thesis using h5 t5 5 h4 t4 4 h2 t2 2 by simp
qed

text \<open>
  C10. Whenever the \<open>try\<close> block of a call throws (the \<open>fetch\<close> rejects, the status is
  not ok, or a body reader rejects), the call ends in Failure with a non-empty message:
  the thrown value's message when it has a non-empty one, and the fixed text
  "Network error" when it has none or an empty one.
\<close>

theorem failure_message_nonempty:
  assumes "call_outcome outcome = Inl e"
  shows "\<exists>m. err (ui (settle (length (sent w)) outcome (getRoute_begin w))) = Some m
           \<and> fetchState (ui (settle (length (sent w)) outcome (getRoute_begin w)))
               = Some (Failure m)
           \<and> m \<noteq> []
           \<and> (e = No_message \<or> e = Message [] \<longrightarrow> m = ''Network error'')
           \<and> (\<forall>t. e = Message t \<and> t \<noteq> [] \<longrightarrow> m = t)"
proof -
  have "ui (settle (length (sent w)) outcome (getRoute_begin w))
        = (ui w)\<lparr>result := JNull, loading := False, err := Some (message_or_default e)\<rparr>"
    by (simp add: ui_settle_begin assms getRoute_finish_Inl)
  moreover have "message_or_default e \<noteq> []"
    by (rule message_or_default_nonempty)
  moreover have "e = No_message \<or> e = Message [] \<longrightarrow> message_or_default e = ''Network error''"
    by (auto simp add: message_or_default_def)
  moreover have "\<forall>t. e = Message t \<and> t \<noteq> [] \<longrightarrow> message_or_default e = t"
    by (auto simp add: message_or_default_def)
  ultimately show ?thesis
    by (simp add: fetchState_def)
qed

theorem failure_message_nonempty_witness:
  "call_outcome (Inl No_message) = Inl No_message
   \<and> err (ui (settle 0 (Inl No_message) (getRoute_begin (initial_world ''ios''))))
       = Some ''Network error''
   \<and> call_outcome (Inl (Message ''Network request failed''))
       = Inl (Message ''Network request failed'')
   \<and> err (ui (settle 0 (Inl (Message ''Network request failed''))
                 (getRoute_begin (initial_world ''ios''))))
       = Some ''Network request failed''"
proof -
  have h: "call_outcome (Inl No_message) = Inl No_message"
    by (simp add: call_outcome_def)
  have k: "call_outcome (Inl (Message ''Network request failed''))
       = Inl (Message ''Network request failed'')"
    by (simp add: call_outcome_def)
  from failure_message_nonempty [OF h, of "initial_world ''ios''"]
  have 1: "err (ui (settle 0 (Inl No_message) (getRoute_begin (initial_world ''ios''))))
       = Some ''Network error''"
    by (auto simp add: initial_world_def)
  from failure_message_nonempty [OF k, of "initial_world ''ios''"]
  have 2: "err (ui (settle 0 (Inl (Message ''Network request failed''))
                 (getRoute_begin (initial_world ''ios''))))
       = Some ''Network request failed''"
    by (auto simp add: initial_world_def)
  show ?thesis using h k 1 2 by simp
qed

text \<open>
  C6. For every response with an ok status whose parsed body has the five required
  members, the call ends in Success holding the parsed value itself: each of the five
  members of the stored result is the member of the parsed body, and its typed reading
  is the typed reading of the parsed body.
\<close>

theorem success_stores_parsed_verbatim:
  assumes "ok res" and "res_json res = Inr data" and "\<not> missing_required data"
  shows "fetchState (ui (settle (length (sent w)) (Inr res) (getRoute_begin w)))
           = Some (Success data)
       \<and> result (ui (settle (length (sent w)) (Inr res) (getRoute_begin w))) = data
       \<and> (\<forall>k \<in> set required_fields.
            property k (result (ui (settle (length (sent w)) (Inr res) (getRoute_begin w))))
              = property k data)
       \<and> as_RouteResult (result (ui (settle (length (sent w)) (Inr res) (getRoute_begin w))))
           = as_RouteResult data"
proof -
  have c: "call_outcome (Inr res) = Inr data"
    using assms by (simp add: call_outcome_def)
  have "data \<noteq> JNull"
    using assms(3) by (rule not_missing_is_object)
  then show ?thesis
    by (simp add: ui_settle_begin c getRoute_finish_Inr fetchState_def)
qed

theorem success_stores_parsed_verbatim_witness:
  "ok (response_200 (sample_result 5200 sample_route))
   \<and> \<not> missing_required (sample_result 5200 sample_route)
   \<and> fetchState
        (ui (settle 0 (Inr (response_200 (sample_result 5200 sample_route)))
               (getRoute_begin (initial_world ''ios''))))
       = Some (Success (sample_result 5200 sample_route))
   \<and> as_RouteResult
        (result (ui (settle 0 (Inr (response_200 (sample_result 5200 sample_route)))
               (getRoute_begin (initial_world ''ios'')))))
       = Some \<lparr>shortest_distance_m = 5200, safest_distance_m = 5800, safest_score = 87,
               shortest_route =
                 [\<lparr>latitude = 33.6405, longitude = - 117.8443\<rparr>,
                  \<lparr>latitude = 33.6501, longitude = - 117.8302\<rparr>,
                  \<lparr>latitude = 33.6506, longitude = - 117.7431\<rparr>],
               safest_route =
                 [\<lparr>latitude = 33.6405, longitude = - 117.8443\<rparr>,
                  \<lparr>latitude = 33.6501, longitude = - 117.8302\<rparr>,
                  \<lparr>latitude = 33.6506, longitude = - 117.7431\<rparr>]\<rparr>"
proof -
  let ?d = "sample_result 5200 sample_route"
  have h: "ok (response_200 ?d)"
    by (simp add: ok_def response_200_def)
  have j: "res_json (response_200 ?d) = Inr ?d"
    by (simp add: response_200_def)
  have m: "\<not> missing_required ?d"
    by (simp add: missing_required_def required_fields_def property_def sample_result_def)
  have a: "as_RouteResult ?d
       = Some \<lparr>shortest_distance_m = 5200, safest_distance_m = 5800, safest_score = 87,
               shortest_route =
                 [\<lparr>latitude = 33.6405, longitude = - 117.8443\<rparr>,
                  \<lparr>latitude = 33.6501, longitude = - 117.8302\<rparr>,
                  \<lparr>latitude = 33.6506, longitude = - 117.7431\<rparr>],
               safest_route =
                 [\<lparr>latitude = 33.6405, longitude = - 117.8443\<rparr>,
                  \<lparr>latitude = 33.6501, longitude = - 117.8302\<rparr>,
                  \<lparr>latitude = 33.6506, longitude = - 117.7431\<rparr>]\<rparr>"
    by (simp add: as_RouteResult_def sample_result_def sample_route_def property_def
        as_number_def as_route_def as_LatLng_def)
  from success_stores_parsed_verbatim [OF h j m, of "initial_world ''ios''"]
  show ?thesis using h m a
    by (simp add: initial_world_def)
qed

text \<open>A value whose \<open>shortest_route\<close> has the declared type is rendered without a throw.\<close>

lemma as_LatLng_not_null: "as_LatLng v = Some c \<Longrightarrow> v \<noteq> JNull"
  by (auto simp add: as_LatLng_def property_def as_number_def)

lemma typed_route_renders:
  assumes "as_route (property ''shortest_route'' d) = Some cs"
  shows "truthy d \<and> \<not> result_part_throws d"
proof -
  obtain vs where p: "property ''shortest_route'' d = Some (JArr vs)"
    and t: "those (map as_LatLng vs) = Some cs"
    using assms
    by (auto simp add: as_route_def split: option.splits json_value.splits)
  obtain kvs where "d = JObj kvs"
    using p by (cases d) (simp_all add: property_def)
  then have 1: "truthy d" by simp
  have 2: "\<not> initialRegionFor_throws (Some (JArr vs))"
  proof (cases vs)
    case Nil
    then show ?thesis by (simp add: initialRegionFor_throws_def js_length_def)
  next
    case (Cons v rest)
    then obtain c where "as_LatLng v = Some c"
      using t by (auto split: option.splits)
    then have "v \<noteq> JNull" by (rule as_LatLng_not_null)
    then show ?thesis using Cons
      by (simp add: initialRegionFor_throws_def js_first_def nullish_def)
  qed
  show ?thesis using 1 2 p by (simp add: result_part_throws_def nullish_def)
qed

lemma sample_route_typed:
  "as_route (Some sample_route)
     = Some [\<lparr>latitude = 33.6405, longitude = - 117.8443\<rparr>,
             \<lparr>latitude = 33.6501, longitude = - 117.8302\<rparr>,
             \<lparr>latitude = 33.6506, longitude = - 117.7431\<rparr>]"
  by (simp add: as_route_def sample_route_def as_LatLng_def property_def as_number_def)




lemma render_throws_without_route:
  "truthy d \<Longrightarrow> property ''shortest_route'' d = None \<Longrightarrow> render_throws (s\<lparr>result := d\<rparr>)"
  by (simp add: render_throws_def result_part_throws_def nullish_def)

subsection \<open>Overlapping calls\<close>

text \<open>
  \<open>getRoute\<close> itself has no guard: called twice before the first call settles, it
  leaves two suspended calls, numbered \<open>length (sent w)\<close> (A) and its successor (B).
\<close>

lemma settle_second_of_two:
  "settle (Suc (length (sent w))) oB (getRoute_begin (getRoute_begin w))
     = finish_call (Suc (length (sent w))) (call_outcome oB)
         (getRoute_begin (getRoute_begin w))"
  by (rule settle_awaiting) (simp add: calls_getRoute_begin sent_getRoute_begin)

lemma settle_first_after_second:
  "settle (length (sent w)) oA
     (settle (Suc (length (sent w))) oB (getRoute_begin (getRoute_begin w)))
   = finish_call (length (sent w)) (call_outcome oA)
       (settle (Suc (length (sent w))) oB (getRoute_begin (getRoute_begin w)))"
  by (rule settle_awaiting)
    (simp add: settle_second_of_two finish_call_def calls_getRoute_begin sent_getRoute_begin)

lemma ui_two_calls:
  "ui (settle (Suc (length (sent w))) oB (getRoute_begin (getRoute_begin w)))
     = getRoute_finish (call_outcome oB)
         ((ui w)\<lparr>result := JNull, loading := True, err := None\<rparr>)"
  by (simp add: settle_second_of_two finish_call_def ui_getRoute_begin)

lemma ui_second_settled_sample:
  "ui (settle 1 (Inr (response_200 v)) (getRoute_begin (getRoute_begin (initial_world os))))
     = initial_state\<lparr>result := v\<rparr>"
  using ui_two_calls [of "initial_world os" "Inr (response_200 v)"]
  by (simp add: call_outcome_response_200 initial_world_def initial_state_def
      getRoute_finish_Inr)

text \<open>
  C2, as stated, fails: with A and B both in flight, B settles first with a route of
  5200 m and the state shows it; then A settles with its route of 9999 m and the state
  shows A's result.
\<close>

theorem stale_response_overwrites_counterexample:
  "fetchState
     (ui (settle 1 (Inr (response_200 (sample_result 5200 sample_route)))
            (getRoute_begin (getRoute_begin (initial_world ''ios'')))))
     = Some (Success (sample_result 5200 sample_route))
   \<and> fetchState
     (ui (settle 0 (Inr (response_200 (sample_result 9999 sample_route)))
            (settle 1 (Inr (response_200 (sample_result 5200 sample_route)))
               (getRoute_begin (getRoute_begin (initial_world ''ios''))))))
     = Some (Success (sample_result 9999 sample_route))
   \<and> sample_result 9999 sample_route \<noteq> sample_result 5200 sample_route"
proof -
  have n: "sample_result d sample_route \<noteq> JNull" for d
    by (simp add: sample_result_def)
  have d: "sample_result 9999 sample_route \<noteq> sample_result 5200 sample_route"
    by (simp add: sample_result_def)
  have a: "ui (settle 0 (Inr (response_200 (sample_result 9999 sample_route)))
            (settle 1 (Inr (response_200 (sample_result 5200 sample_route)))
               (getRoute_begin (getRoute_begin (initial_world ''ios'')))))
        = initial_state\<lparr>result := sample_result 9999 sample_route\<rparr>"
    using settle_first_after_second [of "initial_world ''ios''"]
      ui_second_settled_sample [of "sample_result 5200 sample_route" "''ios''"]
    by (simp add: call_outcome_response_200 initial_world_def initial_state_def
        ui_finish_call getRoute_finish_Inr)
  show ?thesis
    unfolding a ui_second_settled_sample using n d
    by (simp add: fetchState_def initial_state_def)
qed

text \<open>
  C2, amended. The button is disabled while loading, so a press while a call is in
  flight starts nothing. If \<open>getRoute\<close> is called again all the same before A settles,
  and A settles after B, then A's outcome is not discarded: it is written over what B
  left. A result from A replaces the stored result and leaves B's error, if any, in
  place; an error from A replaces the stored error and leaves B's result, if any, in
  place; loading is cleared.
\<close>

theorem overlapping_calls_each_settling_writes:
  "(let a = length (sent w);
        after_B = settle (Suc a) oB (getRoute_begin (getRoute_begin w));
        final = settle a oA after_B
    in ui final = getRoute_finish (call_outcome oA) (ui after_B)
       \<and> \<not> loading (ui final)
       \<and> (\<forall>d. call_outcome oA = Inr d \<longrightarrow>
            result (ui final) = d \<and> err (ui final) = err (ui after_B))
       \<and> (\<forall>e. call_outcome oA = Inl e \<longrightarrow>
            err (ui final) = Some (message_or_default e)
            \<and> result (ui final) = result (ui after_B)))
   \<and> (loading (ui v) \<longrightarrow> step v Press = v)
   \<and> loading (ui (getRoute_begin w))"
proof -
  have "ui (settle (length (sent w)) oA
          (settle (Suc (length (sent w))) oB (getRoute_begin (getRoute_begin w))))
        = getRoute_finish (call_outcome oA)
            (ui (settle (Suc (length (sent w))) oB (getRoute_begin (getRoute_begin w))))"
    by (simp add: settle_first_after_second ui_finish_call)
  then show ?thesis
    by (cases "call_outcome oA")
      (simp_all add: Let_def getRoute_finish_Inr getRoute_finish_Inl ui_getRoute_begin)
qed

theorem overlapping_calls_each_settling_writes_witness:
  "call_outcome (Inl (Message ''Network request failed''))
     = Inl (Message ''Network request failed'')
   \<and> ui (settle 0 (Inl (Message ''Network request failed''))
          (settle 1 (Inr (response_200 (sample_result 5200 sample_route)))
             (getRoute_begin (getRoute_begin (initial_world ''ios'')))))
     = initial_state\<lparr>result := sample_result 5200 sample_route,
                      err := Some ''Network request failed''\<rparr>
   \<and> call_outcome (Inr (response_200 (JObj []))) = Inr (JObj [])
   \<and> result (ui (settle 0 (Inr (response_200 (JObj [])))
          (settle 1 (Inr (response_200 (sample_result 5200 sample_route)))
             (getRoute_begin (getRoute_begin (initial_world ''ios''))))))
     = JObj []
   \<and> loading (ui (getRoute_begin (initial_world ''ios'')))
   \<and> step (getRoute_begin (initial_world ''ios'')) Press = getRoute_begin (initial_world ''ios'')"
proof -
  have e: "call_outcome (Inl (Message ''Network request failed''))
     = Inl (Message ''Network request failed'')"
    by (simp add: call_outcome_def)
  note b = ui_second_settled_sample [of "sample_result 5200 sample_route" "''ios''"]
  from overlapping_calls_each_settling_writes
    [of "initial_world ''ios''" "Inr (response_200 (sample_result 5200 sample_route))"
        "Inl (Message ''Network request failed'')" "getRoute_begin (initial_world ''ios'')"]
  have 1: "ui (settle 0 (Inl (Message ''Network request failed''))
          (settle 1 (Inr (response_200 (sample_result 5200 sample_route)))
             (getRoute_begin (getRoute_begin (initial_world ''ios'')))))
     = initial_state\<lparr>result := sample_result 5200 sample_route,
                      err := Some ''Network request failed''\<rparr>"
    and 2: "loading (ui (getRoute_begin (initial_world ''ios'')))"
    and 3: "step (getRoute_begin (initial_world ''ios'')) Press
              = getRoute_begin (initial_world ''ios'')"
    using e b
    by (simp_all add: Let_def initial_world_def initial_state_def getRoute_finish_Inl
        message_or_default_def)
  from overlapping_calls_each_settling_writes
    [of "initial_world ''ios''" "Inr (response_200 (sample_result 5200 sample_route))"
        "Inr (response_200 (JObj []))" "getRoute_begin (initial_world ''ios'')"]
  have 4: "result (ui (settle 0 (Inr (response_200 (JObj [])))
          (settle 1 (Inr (response_200 (sample_result 5200 sample_route)))
             (getRoute_begin (getRoute_begin (initial_world ''ios''))))))
     = JObj []"
    by (simp add: Let_def initial_world_def call_outcome_response_200 getRoute_finish_Inr)
  show ?thesis
    using e 1 2 3 4 by (simp add: call_outcome_response_200)
qed

subsection \<open>States reachable from the screen\<close>

lemma step_single_flight:
  assumes "single_flight w"
  shows "single_flight (step w ev)"
proof (cases ev)
  case (Change_origin v)
  then show ?thesis using assms by (simp add: single_flight_def setOrigin_def)
next
  case (Change_dest v)
  then show ?thesis using assms by (simp add: single_flight_def setDest_def)
next
  case Press
  then show ?thesis using assms
    by (auto simp add: single_flight_def ui_getRoute_begin calls_getRoute_begin)
next
  case (Fetch_settled i outcome)
  show ?thesis
  proof (cases "calls w i = Some Awaiting_fetch")
    case True
    then have l: "loading (ui w)" and c: "calls w = [i \<mapsto> Awaiting_fetch]"
      using assms by (auto simp add: single_flight_def split: if_splits)
    show ?thesis
    proof (cases outcome)
      case (Inl e)
      then show ?thesis using assms l c Fetch_settled
        by (simp add: single_flight_def getRoute_fetched_def finish_call_def
            getRoute_finish_Inl)
    next
      case (Inr res)
      then show ?thesis using assms l c Fetch_settled
        by (auto simp add: single_flight_def getRoute_fetched_def)
    qed
  next
    case False
    then have "getRoute_fetched i outcome w = w"
      by (auto simp add: getRoute_fetched_def split: option.splits stage.splits)
    then show ?thesis using assms Fetch_settled by simp
  qed
next
  case (Body_settled i)
  show ?thesis
  proof (cases "calls w i")
    case None
    then have "getRoute_body i w = w" by (simp add: getRoute_body_def)
    then show ?thesis using assms Body_settled by simp
  next
    case (Some st)
    then have l: "loading (ui w)" and c: "calls w = [i \<mapsto> st]"
      using assms by (auto simp add: single_flight_def split: if_splits)
    show ?thesis
    proof (cases st)
      case Awaiting_fetch
      then have "getRoute_body i w = w" using Some by (simp add: getRoute_body_def)
      then show ?thesis using assms Body_settled by simp
    next
      case (Awaiting_text res)
      obtain e where "text_outcome res = Inl e"
        by (cases "res_text res") (simp_all add: text_outcome_def)
      then show ?thesis using assms l c Body_settled Awaiting_text
        by (simp add: single_flight_def getRoute_body_def finish_call_def
            getRoute_finish_Inl)
    next
      case (Awaiting_json res)
      show ?thesis
      proof (cases "res_json res")
        case (Inl e)
        then show ?thesis using assms l c Body_settled Awaiting_json
          by (simp add: single_flight_def getRoute_body_def finish_call_def
              getRoute_finish_Inl)
      next
        case (Inr data)
        then show ?thesis using assms l c Body_settled Awaiting_json
          by (simp add: single_flight_def getRoute_body_def finish_call_def
              getRoute_finish_Inr)
      qed
    qed
  qed
qed

lemma foldl_step_single_flight:
  "single_flight w \<Longrightarrow> single_flight (foldl step w es)"
  by (induction es arbitrary: w) (simp_all add: step_single_flight)

lemma run_single_flight: "single_flight (run os es)"
  unfolding run_def
  by (rule foldl_step_single_flight)
    (simp add: single_flight_def initial_world_def initial_state_def)

text \<open>The last state of a segment's setter calls is the state its function returns.\<close>

lemma getRoute_finish_steps_last: "last (getRoute_finish_steps r s) = getRoute_finish r s"
  by (cases r) (simp_all add: getRoute_finish_steps_def getRoute_finish_def)

lemma getRoute_begin_steps_last: "last (getRoute_begin_steps (ui w)) = ui (getRoute_begin w)"
  by (simp add: getRoute_begin_steps_def getRoute_begin_def)

lemma segment_states_last:
  "ui (step w ev) = (if segment_states w ev = [] then ui w else last (segment_states w ev))"
proof (cases ev)
  case (Fetch_settled i outcome)
  then show ?thesis
    by (cases outcome)
      (auto simp add: getRoute_fetched_def finish_call_def getRoute_finish_def
        getRoute_finish_steps_def split: option.splits stage.splits sum.splits)
next
  case (Body_settled i)
  then show ?thesis
    by (auto simp add: getRoute_body_def finish_call_def getRoute_finish_def
        getRoute_finish_steps_def split: option.splits stage.splits sum.splits)
qed (simp_all add: getRoute_begin_steps_def getRoute_begin_def)

lemma play_foldl: "play w es = Some w' \<Longrightarrow> w' = foldl step w es"
  by (induction es arbitrary: w) (simp_all split: if_splits)

lemma suspended_is_loading:
  assumes "single_flight w" and "calls w i = Some st"
  shows "loading (ui w) \<and> result (ui w) = JNull \<and> err (ui w) = None"
  using assms by (auto simp add: single_flight_def split: if_splits)

lemma finish_steps_bound:
  assumes "loading s" and "result s = JNull" and "err s = None"
    and "x \<in> set (getRoute_finish_steps r s)"
  shows "\<not> (result x \<noteq> JNull \<and> err x \<noteq> None) \<and> (fetchState x \<noteq> None \<or> loading x)"
  using assms
  by (cases r)
    (auto simp add: getRoute_finish_steps_def setErr_def setResult_def setLoading_def
      fetchState_def)

lemma begin_steps_bound:
  assumes "\<not> loading s" and "result s = JNull \<or> err s = None"
    and "x \<in> set (getRoute_begin_steps s)"
  shows "\<not> (result x \<noteq> JNull \<and> err x \<noteq> None) \<and> fetchState x \<noteq> None"
  using assms
  by (auto simp add: getRoute_begin_steps_def setErr_def setResult_def setLoading_def
      fetchState_def)

lemma segment_states_bound:
  assumes "single_flight w" and "x \<in> set (segment_states w ev)"
  shows "\<not> (result x \<noteq> JNull \<and> err x \<noteq> None) \<and> (fetchState x \<noteq> None \<or> loading x)"
proof (cases ev)
  case (Change_origin v)
  then show ?thesis using assms
    by (auto simp add: single_flight_def setOrigin_def fetchState_def
        split: if_splits option.splits)
next
  case (Change_dest v)
  then show ?thesis using assms
    by (auto simp add: single_flight_def setDest_def fetchState_def
        split: if_splits option.splits)
next
  case Press
  show ?thesis
  proof (cases "loading (ui w)")
    case True
    then show ?thesis using assms Press by simp
  next
    case False
    then have "result (ui w) = JNull \<or> err (ui w) = None"
      using assms(1) by (simp add: single_flight_def)
    then show ?thesis
      using begin_steps_bound [of "ui w" x] False assms(2) Press by simp
  qed
next
  case (Fetch_settled i outcome)
  show ?thesis
  proof (cases "calls w i = Some Awaiting_fetch")
    case True
    note l = suspended_is_loading [OF assms(1) True]
    show ?thesis
    proof (cases outcome)
      case (Inl e)
      then have "x \<in> set (getRoute_finish_steps (Inl e) (ui w))"
        using assms(2) Fetch_settled True by simp
      then show ?thesis
        using finish_steps_bound [of "ui w" x "Inl e"] l by simp
    next
      case (Inr res)
      then show ?thesis using assms(2) Fetch_settled True by simp
    qed
  next
    case False
    then have "segment_states w (Fetch_settled i outcome) = []"
      by (auto split: option.splits stage.splits)
    then show ?thesis using assms(2) Fetch_settled by simp
  qed
next
  case (Body_settled i)
  show ?thesis
  proof (cases "calls w i")
    case None
    then show ?thesis using assms(2) Body_settled by simp
  next
    case (Some st)
    note l = suspended_is_loading [OF assms(1) Some]
    show ?thesis
    proof (cases st)
      case Awaiting_fetch
      then show ?thesis using assms(2) Body_settled Some by simp
    next
      case (Awaiting_text res)
      then have "x \<in> set (getRoute_finish_steps (text_outcome res) (ui w))"
        using assms(2) Body_settled Some by simp
      then show ?thesis
        using finish_steps_bound [of "ui w" x "text_outcome res"] l by simp
    next
      case (Awaiting_json res)
      then have "x \<in> set (getRoute_finish_steps (res_json res) (ui w))"
        using assms(2) Body_settled Some by simp
      then show ?thesis
        using finish_steps_bound [of "ui w" x "res_json res"] l by simp
    qed
  qed
qed

lemma run_two_events:
  "run os [Press, Fetch_settled 0 (Inr (response_200 v))]
     = \<lparr>platform = os, ui = initial_state\<lparr>loading := True\<rparr>,
        calls = [0 \<mapsto> Awaiting_json (response_200 v)],
        sent = [route_request os initial_state]\<rparr>"
proof -
  have "ok (response_200 v)" by (simp add: ok_def response_200_def)
  then show ?thesis
    by (simp add: run_def initial_world_def initial_state_def getRoute_begin_def
        getRoute_fetched_def after_fetch_def setLoading_def setResult_def setErr_def)
qed

text \<open>
  C9, as stated, fails: in the segment that ends a successful call, after
  \<open>setResult(data)\<close> and before \<open>setLoading(false)\<close>, loading is set together with the
  stored result, and the cells are in none of the four variants.
\<close>

theorem loading_with_result_counterexample:
  "segment_states
     (run ''ios'' [Press, Fetch_settled 0 (Inr (response_200 (sample_result 5200 sample_route)))])
     (Body_settled 0)
     = [initial_state\<lparr>result := sample_result 5200 sample_route, loading := True\<rparr>,
        initial_state\<lparr>result := sample_result 5200 sample_route\<rparr>]
   \<and> loading (initial_state\<lparr>result := sample_result 5200 sample_route, loading := True\<rparr>)
   \<and> result (initial_state\<lparr>result := sample_result 5200 sample_route, loading := True\<rparr>)
       \<noteq> JNull
   \<and> fetchState (initial_state\<lparr>result := sample_result 5200 sample_route, loading := True\<rparr>)
       = None"
proof -
  have n: "sample_result 5200 sample_route \<noteq> JNull"
    by (simp add: sample_result_def)
  have j: "res_json (response_200 v) = Inr v" for v
    by (simp add: response_200_def)
  have s: "segment_states
     (run ''ios'' [Press, Fetch_settled 0 (Inr (response_200 (sample_result 5200 sample_route)))])
     (Body_settled 0)
     = [initial_state\<lparr>result := sample_result 5200 sample_route, loading := True\<rparr>,
        initial_state\<lparr>result := sample_result 5200 sample_route\<rparr>]"
    unfolding run_two_events
    by (simp add: j getRoute_finish_steps_def setResult_def setLoading_def initial_state_def)
  show ?thesis
    unfolding s using n by (simp add: fetchState_def)
qed

text \<open>
  C9, amended. In a run of the screen in which no render has thrown, the cells between
  two segments (after a handler or a continuation of \<open>getRoute\<close> has returned) are in
  exactly one of the four variants. Inside a segment a result is never stored together
  with an error, and the only states outside the four variants have loading set: the end
  of a call passes through one state in which loading is still set together with the
  result just stored (after \<open>setResult(data)\<close>) or the error just stored (after
  \<open>setErr\<close>), until \<open>setLoading(false)\<close> runs.
\<close>

theorem one_variant_between_segments:
  assumes "play (initial_world os) es = Some w"
  shows "w = run os es
       \<and> fetchState (ui w) \<noteq> None
       \<and> \<not> (loading (ui w) \<and> result (ui w) \<noteq> JNull)
       \<and> \<not> (loading (ui w) \<and> err (ui w) \<noteq> None)
       \<and> \<not> (result (ui w) \<noteq> JNull \<and> err (ui w) \<noteq> None)
       \<and> (\<forall>x \<in> set (segment_states w ev).
            \<not> (result x \<noteq> JNull \<and> err x \<noteq> None) \<and> (fetchState x \<noteq> None \<or> loading x))
       \<and> (\<forall>i res data. calls w i = Some (Awaiting_json res) \<and> res_json res = Inr data \<longrightarrow>
            loading (ui w)
            \<and> segment_states w (Body_settled i)
                = [(ui w)\<lparr>result := data\<rparr>, (ui w)\<lparr>result := data, loading := False\<rparr>])
       \<and> (\<forall>i e. calls w i = Some Awaiting_fetch \<longrightarrow>
            loading (ui w)
            \<and> segment_states w (Fetch_settled i (Inl e))
                = [(ui w)\<lparr>err := Some (message_or_default e)\<rparr>,
                   (ui w)\<lparr>err := Some (message_or_default e), loading := False\<rparr>])"
proof -
  have w: "w = run os es"
    using play_foldl [OF assms] by (simp add: run_def)
  have sf: "single_flight w"
    unfolding w by (rule run_single_flight)
  have 1: "fetchState (ui w) \<noteq> None
       \<and> \<not> (loading (ui w) \<and> result (ui w) \<noteq> JNull)
       \<and> \<not> (loading (ui w) \<and> err (ui w) \<noteq> None)
       \<and> \<not> (result (ui w) \<noteq> JNull \<and> err (ui w) \<noteq> None)"
    using sf
    by (auto simp add: single_flight_def fetchState_def split: if_splits option.splits)
  have 2: "\<forall>x \<in> set (segment_states w ev).
            \<not> (result x \<noteq> JNull \<and> err x \<noteq> None) \<and> (fetchState x \<noteq> None \<or> loading x)"
    using segment_states_bound [OF sf] by blast
  have 3: "\<forall>i res data. calls w i = Some (Awaiting_json res) \<and> res_json res = Inr data \<longrightarrow>
            loading (ui w)
            \<and> segment_states w (Body_settled i)
                = [(ui w)\<lparr>result := data\<rparr>, (ui w)\<lparr>result := data, loading := False\<rparr>]"
    using suspended_is_loading [OF sf]
    by (auto simp add: getRoute_finish_steps_def setResult_def setLoading_def)
  have 4: "\<forall>i e. calls w i = Some Awaiting_fetch \<longrightarrow>
            loading (ui w)
            \<and> segment_states w (Fetch_settled i (Inl e))
                = [(ui w)\<lparr>err := Some (message_or_default e)\<rparr>,
                   (ui w)\<lparr>err := Some (message_or_default e), loading := False\<rparr>]"
    using suspended_is_loading [OF sf]
    by (auto simp add: getRoute_finish_steps_def setErr_def setLoading_def)
  show ?thesis using w 1 2 3 4 by blast
qed

lemma render_ok_null: "result s = JNull \<Longrightarrow> \<not> render_throws s"
  by (simp add: render_throws_def)

lemma render_ok_sample: "result s = sample_result d sample_route \<Longrightarrow> \<not> render_throws s"
proof -
  have "property ''shortest_route'' (sample_result d sample_route) = Some sample_route"
    by (simp add: property_def sample_result_def)
  then have "\<not> result_part_throws (sample_result d sample_route)"
    using typed_route_renders [of "sample_result d sample_route"] sample_route_typed by simp
  then show "result s = sample_result d sample_route \<Longrightarrow> \<not> render_throws s"
    by (simp add: render_throws_def)
qed

lemma play_sample:
  "play (initial_world os)
     [Press, Fetch_settled 0 (Inr (response_200 (sample_result d sample_route))), Body_settled 0]
   = Some (run os
     [Press, Fetch_settled 0 (Inr (response_200 (sample_result d sample_route))), Body_settled 0])"
proof -
  let ?r = "response_200 (sample_result d sample_route)"
  have 1: "\<not> list_ex render_throws (segment_states (initial_world os) Press)"
    by (simp add: initial_world_def initial_state_def getRoute_begin_steps_def
        setErr_def setResult_def setLoading_def render_ok_null)
  have 2: "segment_states (step (initial_world os) Press) (Fetch_settled 0 (Inr ?r)) = []"
    by (simp add: initial_world_def calls_getRoute_begin initial_state_def)
  have 3: "step (step (initial_world os) Press) (Fetch_settled 0 (Inr ?r))
             = run os [Press, Fetch_settled 0 (Inr ?r)]"
    by (simp add: run_def)
  have 4: "\<not> list_ex render_throws
             (segment_states (run os [Press, Fetch_settled 0 (Inr ?r)]) (Body_settled 0))"
    unfolding run_two_events
    by (simp add: response_200_def getRoute_finish_steps_def setResult_def setLoading_def
        render_ok_sample)
  have 5: "step (run os [Press, Fetch_settled 0 (Inr ?r)]) (Body_settled 0)
             = run os [Press, Fetch_settled 0 (Inr ?r), Body_settled 0]"
    by (simp add: run_def)
  have "play (initial_world os) [Press, Fetch_settled 0 (Inr ?r), Body_settled 0]
          = play (step (initial_world os) Press) [Fetch_settled 0 (Inr ?r), Body_settled 0]"
    using 1 by (simp only: play.simps if_False)
  also have "\<dots> = play (run os [Press, Fetch_settled 0 (Inr ?r)]) [Body_settled 0]"
    unfolding 3 [symmetric] by (simp only: play.simps 2 list_ex_Nil_iff if_False)
  also have "\<dots> = play (run os [Press, Fetch_settled 0 (Inr ?r), Body_settled 0]) []"
    unfolding 5 [symmetric] using 4 by (simp only: play.simps if_False)
  finally show ?thesis
    by (simp only: play.simps)
qed

lemma ui_run_sample:
  "ui (run os
     [Press, Fetch_settled 0 (Inr (response_200 (sample_result d sample_route))), Body_settled 0])
   = initial_state\<lparr>result := sample_result d sample_route\<rparr>"
proof -
  have "run os
     [Press, Fetch_settled 0 (Inr (response_200 (sample_result d sample_route))), Body_settled 0]
     = step (run os [Press, Fetch_settled 0 (Inr (response_200 (sample_result d sample_route)))])
         (Body_settled 0)"
    by (simp add: run_def)
  then show ?thesis
    unfolding run_two_events
    by (simp add: getRoute_body_def finish_call_def getRoute_finish_Inr response_200_def
        initial_state_def)
qed

lemma run_press:
  "run os [Press]
     = \<lparr>platform = os, ui = initial_state\<lparr>loading := True\<rparr>,
        calls = [0 \<mapsto> Awaiting_fetch],
        sent = [route_request os initial_state]\<rparr>"
  by (simp add: run_def initial_world_def initial_state_def getRoute_begin_def
      setLoading_def setResult_def setErr_def)

lemma play_press: "play (initial_world os) [Press] = Some (run os [Press])"
proof -
  have 1: "\<not> list_ex render_throws (segment_states (initial_world os) Press)"
    by (simp add: initial_world_def initial_state_def getRoute_begin_steps_def
        setErr_def setResult_def setLoading_def render_ok_null)
  have 2: "step (initial_world os) Press = run os [Press]"
    by (simp add: run_def)
  have "play (initial_world os) [Press] = play (step (initial_world os) Press) []"
    using 1 by (simp only: play.simps if_False)
  then show ?thesis
    unfolding 2 by (simp only: play.simps)
qed

lemma play_fetched:
  "play (initial_world os) [Press, Fetch_settled 0 (Inr (response_200 v))]
     = Some (run os [Press, Fetch_settled 0 (Inr (response_200 v))])"
proof -
  let ?r = "response_200 v"
  have 1: "\<not> list_ex render_throws (segment_states (initial_world os) Press)"
    by (simp add: initial_world_def initial_state_def getRoute_begin_steps_def
        setErr_def setResult_def setLoading_def render_ok_null)
  have 2: "segment_states (step (initial_world os) Press) (Fetch_settled 0 (Inr ?r)) = []"
    by (simp add: initial_world_def calls_getRoute_begin initial_state_def)
  have 3: "step (step (initial_world os) Press) (Fetch_settled 0 (Inr ?r))
             = run os [Press, Fetch_settled 0 (Inr ?r)]"
    by (simp add: run_def)
  have "play (initial_world os) [Press, Fetch_settled 0 (Inr ?r)]
          = play (step (initial_world os) Press) [Fetch_settled 0 (Inr ?r)]"
    using 1 by (simp only: play.simps if_False)
  also have "\<dots> = play (run os [Press, Fetch_settled 0 (Inr ?r)]) []"
    unfolding 3 [symmetric] by (simp only: play.simps 2 list_ex_Nil_iff if_False)
  finally show ?thesis
    by (simp only: play.simps)
qed

theorem one_variant_between_segments_witness:
  "play (initial_world ''ios'')
     [Press, Fetch_settled 0 (Inr (response_200 (sample_result 5200 sample_route))),
      Body_settled 0]
   = Some (run ''ios''
     [Press, Fetch_settled 0 (Inr (response_200 (sample_result 5200 sample_route))),
      Body_settled 0])
   \<and> fetchState (ui (run ''ios''
     [Press, Fetch_settled 0 (Inr (response_200 (sample_result 5200 sample_route))),
      Body_settled 0]))
     = Some (Success (sample_result 5200 sample_route))
   \<and> play (initial_world ''ios'')
       [Press, Fetch_settled 0 (Inr (response_200 (sample_result 5200 sample_route)))]
     = Some (run ''ios''
       [Press, Fetch_settled 0 (Inr (response_200 (sample_result 5200 sample_route)))])
   \<and> calls (run ''ios''
       [Press, Fetch_settled 0 (Inr (response_200 (sample_result 5200 sample_route)))]) 0
     = Some (Awaiting_json (response_200 (sample_result 5200 sample_route)))
   \<and> segment_states (run ''ios''
       [Press, Fetch_settled 0 (Inr (response_200 (sample_result 5200 sample_route)))])
       (Body_settled 0)
     = [initial_state\<lparr>loading := True, result := sample_result 5200 sample_route\<rparr>,
        initial_state\<lparr>result := sample_result 5200 sample_route\<rparr>]
   \<and> play (initial_world ''ios'') [Press] = Some (run ''ios'' [Press])
   \<and> calls (run ''ios'' [Press]) 0 = Some Awaiting_fetch
   \<and> segment_states (run ''ios'' [Press]) (Fetch_settled 0 (Inl No_message))
     = [initial_state\<lparr>loading := True, err := Some ''Network error''\<rparr>,
        initial_state\<lparr>err := Some ''Network error''\<rparr>]"
proof -
  let ?S = "sample_result 5200 sample_route"
  let ?es = "[Press, Fetch_settled 0 (Inr (response_200 ?S)), Body_settled 0]"
  let ?w2 = "run ''ios'' [Press, Fetch_settled 0 (Inr (response_200 ?S))]"
  let ?w1 = "run ''ios'' [Press]"
  note p = play_sample [of "''ios''" 5200]
  note p2 = play_fetched [of "''ios''" ?S]
  note p1 = play_press [of "''ios''"]
  have n: "?S \<noteq> JNull"
    by (simp add: sample_result_def)
  have "fetchState (ui (run ''ios'' ?es)) \<noteq> None"
    using one_variant_between_segments [OF p, THEN conjunct2, THEN conjunct1] .
  then have a: "fetchState (ui (run ''ios'' ?es)) = Some (Success ?S)"
    unfolding ui_run_sample using n by (simp add: fetchState_def initial_state_def)
  have c2: "calls ?w2 0 = Some (Awaiting_json (response_200 ?S))"
    unfolding run_two_events by simp
  have j: "res_json (response_200 ?S) = Inr ?S"
    by (simp add: response_200_def)
  have u2: "ui ?w2 = initial_state\<lparr>loading := True\<rparr>"
    unfolding run_two_events by simp
  have "\<forall>i res data. calls ?w2 i = Some (Awaiting_json res) \<and> res_json res = Inr data \<longrightarrow>
            loading (ui ?w2)
            \<and> segment_states ?w2 (Body_settled i)
                = [(ui ?w2)\<lparr>result := data\<rparr>, (ui ?w2)\<lparr>result := data, loading := False\<rparr>]"
    using one_variant_between_segments [OF p2, of Press] by blast
  then have "segment_states ?w2 (Body_settled 0)
                = [(ui ?w2)\<lparr>result := ?S\<rparr>, (ui ?w2)\<lparr>result := ?S, loading := False\<rparr>]"
    using c2 j by blast
  then have b: "segment_states ?w2 (Body_settled 0)
     = [initial_state\<lparr>loading := True, result := ?S\<rparr>, initial_state\<lparr>result := ?S\<rparr>]"
    unfolding u2 by (simp add: initial_state_def)
  have c1: "calls ?w1 0 = Some Awaiting_fetch"
    unfolding run_press by simp
  have u1: "ui ?w1 = initial_state\<lparr>loading := True\<rparr>"
    unfolding run_press by simp
  have "\<forall>i e. calls ?w1 i = Some Awaiting_fetch \<longrightarrow>
            loading (ui ?w1)
            \<and> segment_states ?w1 (Fetch_settled i (Inl e))
                = [(ui ?w1)\<lparr>err := Some (message_or_default e)\<rparr>,
                   (ui ?w1)\<lparr>err := Some (message_or_default e), loading := False\<rparr>]"
    using one_variant_between_segments [OF p1, of Press] by blast
  then have "segment_states ?w1 (Fetch_settled 0 (Inl No_message))
                = [(ui ?w1)\<lparr>err := Some (message_or_default No_message)\<rparr>,
                   (ui ?w1)\<lparr>err := Some (message_or_default No_message), loading := False\<rparr>]"
    using c1 by blast
  then have d: "segment_states ?w1 (Fetch_settled 0 (Inl No_message))
     = [initial_state\<lparr>loading := True, err := Some ''Network error''\<rparr>,
        initial_state\<lparr>err := Some ''Network error''\<rparr>]"
    unfolding u1 by (simp add: initial_state_def message_or_default_def)
  show ?thesis
    using p a p2 c2 b p1 c1 d by blast
qed

subsection \<open>The presenter\<close>

text \<open>
  C8. The framing is a function of the coordinates alone: centred at the first
  coordinate of a non-empty route, and at latitude 33.64, longitude -117.84 when the
  route is empty or absent, with both deltas 0.05. The map, drawn only while a result
  is shown, is framed from the shortest route of that result.
\<close>

theorem framing_center:
  "initialRegionFor (Some (c # cs))
     = \<lparr>latitude = latitude c, longitude = longitude c,
        latitudeDelta = 0.05, longitudeDelta = 0.05\<rparr>
   \<and> initialRegionFor (Some [])
     = \<lparr>latitude = 33.64, longitude = - 117.84, latitudeDelta = 0.05, longitudeDelta = 0.05\<rparr>
   \<and> initialRegionFor None
     = \<lparr>latitude = 33.64, longitude = - 117.84, latitudeDelta = 0.05, longitudeDelta = 0.05\<rparr>
   \<and> initialRegion (mapView (present r)) = initialRegionFor (Some (shortest_route r))"
  by (simp add: initialRegionFor_def present_def)

text \<open>
  C3 does not hold of the render. For a 200 response whose body is a well-formed
  RouteResult with an empty \<open>shortest_route\<close>, the call ends in Success, the result part
  is shown and no error is, and both markers are given the \<open>undefined\<close> read at index 0
  and at index -1 of the empty array as their coordinate. The framing guards the same
  array against emptiness; the markers do not.
\<close>

theorem empty_route_markers_undefined:
  "as_RouteResult (sample_result 0 (JArr []))
     = Some \<lparr>shortest_distance_m = 0, safest_distance_m = 5800, safest_score = 87,
             shortest_route = [],
             safest_route =
               [\<lparr>latitude = 33.6405, longitude = - 117.8443\<rparr>,
                \<lparr>latitude = 33.6501, longitude = - 117.8302\<rparr>,
                \<lparr>latitude = 33.6506, longitude = - 117.7431\<rparr>]\<rparr>
   \<and> markers (mapView (present
        \<lparr>shortest_distance_m = 0, safest_distance_m = 5800, safest_score = 87,
             shortest_route = [],
             safest_route =
               [\<lparr>latitude = 33.6405, longitude = - 117.8443\<rparr>,
                \<lparr>latitude = 33.6501, longitude = - 117.8302\<rparr>,
                \<lparr>latitude = 33.6506, longitude = - 117.7431\<rparr>]\<rparr>))
     = [\<lparr>coordinate = None, title = ''Origin''\<rparr>,
        \<lparr>coordinate = None, title = ''Destination''\<rparr>]
   \<and> fetchState
        (ui (settle 0 (Inr (response_200 (sample_result 0 (JArr []))))
               (getRoute_begin (initial_world ''ios''))))
     = Some (Success (sample_result 0 (JArr [])))
   \<and> result_shown
        (ui (settle 0 (Inr (response_200 (sample_result 0 (JArr []))))
               (getRoute_begin (initial_world ''ios''))))
   \<and> error_shown
        (ui (settle 0 (Inr (response_200 (sample_result 0 (JArr []))))
               (getRoute_begin (initial_world ''ios''))))
     = None"
proof -
  let ?d = "sample_result 0 (JArr [])"
  have a: "as_RouteResult ?d
     = Some \<lparr>shortest_distance_m = 0, safest_distance_m = 5800, safest_score = 87,
             shortest_route = [],
             safest_route =
               [\<lparr>latitude = 33.6405, longitude = - 117.8443\<rparr>,
                \<lparr>latitude = 33.6501, longitude = - 117.8302\<rparr>,
                \<lparr>latitude = 33.6506, longitude = - 117.7431\<rparr>]\<rparr>"
    by (simp add: as_RouteResult_def sample_result_def sample_route_def property_def
        as_number_def as_route_def as_LatLng_def)
  have m: "markers (mapView (present
        \<lparr>shortest_distance_m = 0, safest_distance_m = 5800, safest_score = 87,
             shortest_route = [],
             safest_route =
               [\<lparr>latitude = 33.6405, longitude = - 117.8443\<rparr>,
                \<lparr>latitude = 33.6501, longitude = - 117.8302\<rparr>,
                \<lparr>latitude = 33.6506, longitude = - 117.7431\<rparr>]\<rparr>))
     = [\<lparr>coordinate = None, title = ''Origin''\<rparr>,
        \<lparr>coordinate = None, title = ''Destination''\<rparr>]"
    by (simp add: present_def at_index_def)
  have u: "ui (settle 0 (Inr (response_200 ?d)) (getRoute_begin (initial_world ''ios'')))
        = initial_state\<lparr>result := ?d\<rparr>"
    using ui_settle_begin [of "initial_world ''ios''" "Inr (response_200 ?d)"]
    by (simp add: call_outcome_response_200 initial_world_def initial_state_def
        getRoute_finish_Inr)
  have n: "?d \<noteq> JNull" "truthy ?d"
    by (simp_all add: sample_result_def)
  show ?thesis
    unfolding u using a m n
    by (simp add: fetchState_def initial_state_def result_shown_def error_shown_def)
qed

end
